theory Spec2Isabelle
  imports Main
begin

section \<open>Data model\<close>

text \<open>
  Go error values. \<open>New text\<close> is the value built by \<^verbatim>\<open>errors.New(text)\<close> inside
  package \<^verbatim>\<open>models\<close>; \<open>Storage text\<close> is an error value handed up by the schema layer
  or the database driver. \<open>Error\<close> is the \<^verbatim>\<open>Error()\<close> method: the message.
  The package has no error types of its own: every failure it creates is an
  \<^verbatim>\<open>errors.New\<close> value that is told apart by its message only.
\<close>

datatype error = New string | Storage string

fun Error :: "error \<Rightarrow> string" where
  "Error (New text) = text"
| "Error (Storage text) = text"

text \<open>
  \<^verbatim>\<open>schema.User\<close>, one row of table \<^verbatim>\<open>users\<close>. A Go string is a byte sequence and
  \<^verbatim>\<open>len\<close> counts bytes, as \<open>length\<close> does on a \<open>string\<close>. \<^verbatim>\<open>null.String\<close> is an
  optional string. Ids (Go's \<^verbatim>\<open>int\<close>) and affected-row counts (\<^verbatim>\<open>int64\<close>) are only
  compared, never computed with, so both are \<open>int\<close>.
\<close>

record User =
  ID :: int
  Name :: string
  Email :: string
  Password :: string
  RefreshToken :: "string option"

text \<open>
  Modelled from the spec: the database handle \<^verbatim>\<open>database.InstanceDB\<close> and its driver,
  which are external collaborators, together with the lines written by
  \<^verbatim>\<open>log.Println\<close>: everything the package reads or writes besides its arguments.
  \<open>users\<close> are the stored rows in storage order, \<open>serial\<close> the last id
  that storage assigned. \<open>select_fault\<close>, \<open>insert_fault\<close>, \<open>update_fault\<close> and
  \<open>delete_fault\<close> say whether the handle fails statements of that kind, and with which
  message; \<open>rows_reported\<close>, when set, is the affected-row count a malformed driver
  reports for every update and delete, whatever was written.
\<close>

record world =
  users :: "User list"
  serial :: int
  select_fault :: "string option"
  insert_fault :: "string option"
  update_fault :: "string option"
  delete_fault :: "string option"
  rows_reported :: "int option"
  logged :: "string list"

section \<open>The schema layer\<close>

text \<open>Modelled from the spec: \<^verbatim>\<open>sql.ErrNoRows\<close>, the error of a one-row query that finds
  no row. The source recognises it by this message.\<close>

definition ErrNoRows :: error where
  "ErrNoRows = Storage ''sql: no rows in result set''"

text \<open>Modelled from the spec: the zero value of \<^verbatim>\<open>schema.User\<close>, which the row-mapping
  layer fills from the selected columns.\<close>

definition zero_User :: User where
  "zero_User = \<lparr>ID = 0, Name = [], Email = [], Password = [], RefreshToken = None\<rparr>"

text \<open>Modelled from the spec: the row-mapping layer for one column of table
  \<^verbatim>\<open>users\<close> (columns \<^verbatim>\<open>id\<close>, \<^verbatim>\<open>name\<close>, \<^verbatim>\<open>email\<close>, \<^verbatim>\<open>password\<close>, \<^verbatim>\<open>refresh_token\<close>):
  \<open>bind_column c src dst\<close> is \<open>dst\<close> with column \<open>c\<close> taken from \<open>src\<close>. A name that
  is no column of the table touches nothing.\<close>

definition bind_column :: "string \<Rightarrow> User \<Rightarrow> User \<Rightarrow> User" where
  "bind_column c src dst =
     (if c = ''id'' then dst\<lparr>ID := ID src\<rparr>
      else if c = ''name'' then dst\<lparr>Name := Name src\<rparr>
      else if c = ''email'' then dst\<lparr>Email := Email src\<rparr>
      else if c = ''password'' then dst\<lparr>Password := Password src\<rparr>
      else if c = ''refresh_token'' then dst\<lparr>RefreshToken := RefreshToken src\<rparr>
      else dst)"

text \<open>Modelled from the spec: the row-mapping layer for a whole row. With no column
  selected every column is read (\<^verbatim>\<open>select *\<close>); otherwise the selected columns are
  read into a zero-valued object (\<^verbatim>\<open>qm.Select\<close>, the column arguments of
  \<^verbatim>\<open>schema.FindUser\<close>).\<close>

definition bind_row :: "string list \<Rightarrow> User \<Rightarrow> User" where
  "bind_row cols r = (if cols = [] then r else fold (\<lambda>c. bind_column c r) cols zero_User)"

text \<open>Modelled from the spec: the query modifiers the source uses. A query maps the
  stored rows to the rows it yields, in order. This one is \<^verbatim>\<open>qm.Where("email=?", email)\<close>
  and \<^verbatim>\<open>schema.UserWhere.Email.EQ(email)\<close>.\<close>

definition where_email :: "string \<Rightarrow> User list \<Rightarrow> User list" where
  "where_email email rows = filter (\<lambda>r. Email r = email) rows"

text \<open>Modelled from the spec: the rows with a given primary key.\<close>

definition where_id :: "int \<Rightarrow> User list \<Rightarrow> User list" where
  "where_id i rows = filter (\<lambda>r. ID r = i) rows"

text \<open>Modelled from the spec: \<^verbatim>\<open>schema.UserWhere.RefreshToken.EQ(null.StringFrom(token))\<close>.\<close>

definition where_refresh_token :: "string \<Rightarrow> User list \<Rightarrow> User list" where
  "where_refresh_token token rows = filter (\<lambda>r. RefreshToken r = Some token) rows"

text \<open>Modelled from the spec: \<^verbatim>\<open>order by id desc\<close>, the most recently inserted
  user first.\<close>

definition order_by_id_desc :: "User list \<Rightarrow> User list" where
  "order_by_id_desc rows = rev (sort_key ID rows)"

text \<open>Modelled from the spec: \<^verbatim>\<open>schema.Users(mods).Exists\<close>. A failed query reports
  \<^verbatim>\<open>false\<close> together with its error.\<close>

definition Users_Exists :: "(User list \<Rightarrow> User list) \<Rightarrow> world \<Rightarrow> bool \<times> error option" where
  "Users_Exists q w =
     (case select_fault w of
        Some msg \<Rightarrow> (False, Some (Storage msg))
      | None \<Rightarrow> (q (users w) \<noteq> [], None))"

text \<open>Modelled from the spec: \<^verbatim>\<open>schema.Users(mods).One\<close>, the first row of a query.
  It returns a user and no error, or no user and an error, which is \<open>ErrNoRows\<close> when
  the query was answered and yields no row.\<close>

definition Users_One ::
  "string list \<Rightarrow> (User list \<Rightarrow> User list) \<Rightarrow> world \<Rightarrow> User option \<times> error option" where
  "Users_One cols q w =
     (case select_fault w of
        Some msg \<Rightarrow> (None, Some (Storage msg))
      | None \<Rightarrow>
         (case q (users w) of
            [] \<Rightarrow> (None, Some ErrNoRows)
          | r # _ \<Rightarrow> (Some (bind_row cols r), None)))"

text \<open>Modelled from the spec: \<^verbatim>\<open>schema.Users().All\<close>, every row of a query.\<close>

definition Users_All :: "(User list \<Rightarrow> User list) \<Rightarrow> world \<Rightarrow> User list \<times> error option" where
  "Users_All q w =
     (case select_fault w of
        Some msg \<Rightarrow> ([], Some (Storage msg))
      | None \<Rightarrow> (q (users w), None))"

text \<open>Modelled from the spec: \<^verbatim>\<open>schema.FindUser\<close>, the one-row query by primary key.\<close>

definition FindUser :: "int \<Rightarrow> string list \<Rightarrow> world \<Rightarrow> User option \<times> error option" where
  "FindUser i cols w = Users_One cols (where_id i) w"

text \<open>Modelled from the spec: the affected-row count as the driver reports it for a
  statement that touched \<open>k\<close> rows.\<close>

definition RowsAffected :: "world \<Rightarrow> nat \<Rightarrow> int" where
  "RowsAffected w k = (case rows_reported w of None \<Rightarrow> int k | Some n \<Rightarrow> n)"

text \<open>Modelled from the spec: the id storage assigns on creation, one above every id
  in use and every id assigned before.\<close>

definition next_id :: "world \<Rightarrow> int" where
  "next_id w = 1 + fold max (map ID (users w)) (serial w)"

text \<open>Modelled from the spec: \<^verbatim>\<open>user.Insert\<close> with \<^verbatim>\<open>boil.Infer()\<close>, which lets
  storage assign the id. A failed statement writes nothing. The caller's object is
  passed by value here: \<open>NewUser\<close> does not use it after the insert, it reads the
  created row back.\<close>

definition User_Insert :: "User \<Rightarrow> world \<Rightarrow> error option \<times> world" where
  "User_Insert u w =
     (case insert_fault w of
        Some msg \<Rightarrow> (Some (Storage msg), w)
      | None \<Rightarrow>
         (None, w\<lparr>users := users w @ [u\<lparr>ID := next_id w\<rparr>], serial := next_id w\<rparr>))"

text \<open>Modelled from the spec: \<^verbatim>\<open>user.Update\<close> with \<^verbatim>\<open>boil.Whitelist(cols)\<close>, a
  whitelist update: the named columns of the object are persisted into the rows with
  the object's id, and nothing else is written. A failed statement writes nothing and
  reports the count 0 with its error.\<close>

definition User_Update :: "User \<Rightarrow> string list \<Rightarrow> world \<Rightarrow> (int \<times> error option) \<times> world" where
  "User_Update u whitelist w =
     (case update_fault w of
        Some msg \<Rightarrow> ((0, Some (Storage msg)), w)
      | None \<Rightarrow>
         ((RowsAffected w (length (where_id (ID u) (users w))), None),
          w\<lparr>users :=
               map (\<lambda>r. if ID r = ID u then fold (\<lambda>c. bind_column c u) whitelist r else r)
                 (users w)\<rparr>))"

text \<open>Modelled from the spec: \<^verbatim>\<open>user.Delete\<close>, which removes the rows with the
  object's id.\<close>

definition User_Delete :: "User \<Rightarrow> world \<Rightarrow> (int \<times> error option) \<times> world" where
  "User_Delete u w =
     (case delete_fault w of
        Some msg \<Rightarrow> ((0, Some (Storage msg)), w)
      | None \<Rightarrow>
         ((RowsAffected w (length (where_id (ID u) (users w))), None),
          w\<lparr>users := filter (\<lambda>r. ID r \<noteq> ID u) (users w)\<rparr>))"

text \<open>\<^verbatim>\<open>log.Println(err)\<close>: one line with the error's message.\<close>

definition Println :: "error \<Rightarrow> world \<Rightarrow> world" where
  "Println e w = w\<lparr>logged := logged w @ [Error e]\<rparr>"

section \<open>Package models\<close>

text \<open>\<^verbatim>\<open>validateUserData\<close>. It reads storage and writes nothing. The error of the
  existence query is dropped (\<^verbatim>\<open>existUser, _ := ...\<close>).\<close>

definition validateUserData :: "User \<Rightarrow> world \<Rightarrow> bool \<times> string" where
  "validateUserData user w =
     (if Name user = [] then (False, ''User name cannot be empty!'')
      else if Email user = [] then (False, ''User e-mail cannot be empty!'')
      else if Password user = [] then (False, ''User password cannot be empty!'')
      else if length (Password user) < 6
        then (False, ''User password must be at least 6 characters!'')
      else
        (case Users_Exists (where_email (Email user)) w of
           (existUser, _) \<Rightarrow>
             if existUser
             then (False,
               ''There is already a registered user with this email, try another email!'')
             else (True, [])))"

text \<open>\<^verbatim>\<open>Authenticate\<close>. The result is Go's pair \<^verbatim>\<open>(bool, error)\<close>, \<open>None\<close> for \<^verbatim>\<open>nil\<close>.\<close>

definition Authenticate :: "string \<Rightarrow> string \<Rightarrow> world \<Rightarrow> (bool \<times> error option) \<times> world" where
  "Authenticate email password w =
     (case Users_One [''password''] (where_email email) w of
        (user, Some err) \<Rightarrow>
          if Error err = ''sql: no rows in result set''
          then ((False, Some (New ''not found user by e-mail'')), w)
          else ((False, Some err), Println err w)
      | (None, None) \<Rightarrow> ((False, Some (New ''not found user by e-mail'')), w)
      | (Some user, None) \<Rightarrow>
          if password \<noteq> Password user
          then ((False, Some (New ''password don't match'')), w)
          else ((True, None), w))"

text \<open>\<^verbatim>\<open>NewUser\<close>.\<close>

definition NewUser :: "User \<Rightarrow> world \<Rightarrow> (User option \<times> error option) \<times> world" where
  "NewUser user w =
     (case validateUserData user w of
        (valid, messageError) \<Rightarrow>
          if \<not> valid then ((None, Some (New messageError)), w)
          else
            (case User_Insert user w of
               (Some err, w1) \<Rightarrow> ((None, Some err), Println err w1)
             | (None, w1) \<Rightarrow>
                 (case Users_One [''id'', ''name'', ''email''] order_by_id_desc w1 of
                    (userCreated, Some err) \<Rightarrow> ((None, Some err), Println err w1)
                  | (userCreated, None) \<Rightarrow> ((userCreated, None), w1))))"

text \<open>\<^verbatim>\<open>GetAllUsers\<close>, \<^verbatim>\<open>GetUserByID\<close>, \<^verbatim>\<open>GetUserByToken\<close>.\<close>

definition GetAllUsers :: "world \<Rightarrow> (User list \<times> error option) \<times> world" where
  "GetAllUsers w =
     (case Users_All (\<lambda>rows. rows) w of
        (allUsers, Some err) \<Rightarrow> (([], Some err), Println err w)
      | (allUsers, None) \<Rightarrow> ((allUsers, None), w))"

definition GetUserByID :: "int \<Rightarrow> world \<Rightarrow> (User option \<times> error option) \<times> world" where
  "GetUserByID userId w =
     (case FindUser userId [''id'', ''name'', ''email''] w of
        (user, Some err) \<Rightarrow> ((None, Some err), Println err w)
      | (user, None) \<Rightarrow> ((user, None), w))"

definition GetUserByToken :: "string \<Rightarrow> world \<Rightarrow> (User option \<times> error option) \<times> world" where
  "GetUserByToken refreshToken w =
     (case Users_One [] (where_refresh_token refreshToken) w of
        (user, Some err) \<Rightarrow> ((None, Some err), Println err w)
      | (user, None) \<Rightarrow> ((user, None), w))"

text \<open>\<^verbatim>\<open>UpdateUser\<close>. The error of the lookup is dropped (\<^verbatim>\<open>user, _ := ...\<close>); the
  lookup is used for its nil-ness only, and the update is issued on the caller's
  object.\<close>

definition UpdateUser :: "User \<Rightarrow> world \<Rightarrow> (int \<times> error option) \<times> world" where
  "UpdateUser userToUpdate w =
     (case FindUser (ID userToUpdate) [] w of
        (None, _) \<Rightarrow> ((0, Some (New ''not found user'')), w)
      | (Some user, _) \<Rightarrow>
          (case User_Update userToUpdate [''name'', ''email''] w of
             ((rowsAff, Some err), w1) \<Rightarrow> ((0, Some err), Println err w1)
           | ((rowsAff, None), w1) \<Rightarrow>
               if rowsAff < 0 then ((0, Some (New ''no affected lines'')), w1)
               else ((rowsAff, None), w1)))"

text \<open>\<^verbatim>\<open>UpdateRefreshTokenByEmail\<close>. The source assigns to \<^verbatim>\<open>user.RefreshToken\<close>
  without a nil check: a lookup returning neither a user nor an error would make it
  panic, which is the result \<open>None\<close>; every return is \<open>Some\<close> of Go's pair.\<close>

definition UpdateRefreshTokenByEmail ::
  "string \<Rightarrow> string \<Rightarrow> world \<Rightarrow> (int \<times> error option) option \<times> world" where
  "UpdateRefreshTokenByEmail email refreshToken w =
     (case Users_One [''id''] (where_email email) w of
        (user, Some err) \<Rightarrow>
          if Error err = ''sql: no rows in result set''
          then (Some (0, Some (New ''not found user by e-mail'')), w)
          else (Some (0, Some err), Println err w)
      | (None, None) \<Rightarrow> (None, w)
      | (Some user, None) \<Rightarrow>
          (case User_Update (user\<lparr>RefreshToken := Some refreshToken\<rparr>) [''refresh_token''] w of
             ((rowsAff, Some err), w1) \<Rightarrow> (Some (0, Some err), Println err w1)
           | ((rowsAff, None), w1) \<Rightarrow>
               if rowsAff < 0 then (Some (0, Some (New ''no affected lines'')), w1)
               else (Some (rowsAff, None), w1)))"

text \<open>\<^verbatim>\<open>DeleteUserByID\<close>. The error of the lookup is dropped here too.\<close>

definition DeleteUserByID :: "int \<Rightarrow> world \<Rightarrow> (int \<times> error option) \<times> world" where
  "DeleteUserByID userId w =
     (case FindUser userId [] w of
        (None, _) \<Rightarrow> ((0, Some (New ''not found user'')), w)
      | (Some user, _) \<Rightarrow>
          (case User_Delete user w of
             ((rowsAff, Some err), w1) \<Rightarrow> ((0, Some err), Println err w1)
           | ((rowsAff, None), w1) \<Rightarrow>
               if rowsAff < 0 then ((0, Some (New ''no affected lines'')), w1)
               else ((rowsAff, None), w1)))"

section \<open>Example states\<close>

text \<open>Two stored users behind a handle that answers every statement, the same table
  behind a handle on which every read fails, and behind a driver that reports the
  affected-row count -1.\<close>

definition ann :: User where
  "ann = \<lparr>ID = 1, Name = ''Ann'', Email = ''ann@example.com'', Password = ''secret1'',
     RefreshToken = None\<rparr>"

definition bob :: User where
  "bob = \<lparr>ID = 2, Name = ''Bob'', Email = ''bob@example.com'', Password = ''hunter22'',
     RefreshToken = Some ''t0''\<rparr>"

definition storage_up :: world where
  "storage_up = \<lparr>users = [ann, bob], serial = 2, select_fault = None, insert_fault = None,
     update_fault = None, delete_fault = None, rows_reported = None, logged = []\<rparr>"

definition storage_down :: world where
  "storage_down = storage_up\<lparr>select_fault := Some ''driver: bad connection''\<rparr>"

definition storage_miscounting :: world where
  "storage_miscounting = storage_up\<lparr>rows_reported := Some (- 1)\<rparr>"


section \<open>Facts about the schema layer\<close>

lemma Users_Exists_answered:
  "select_fault w = None \<Longrightarrow>
     fst (Users_Exists (where_email email) w) = (\<exists>r\<in>set (users w). Email r = email)"
  by (auto simp: Users_Exists_def where_email_def filter_empty_conv)

lemma Users_One_fault:
  "select_fault w = Some msg \<Longrightarrow> Users_One cols q w = (None, Some (Storage msg))"
  by (simp add: Users_One_def)

lemma FindUser_eq:
  "FindUser i cols w =
     (case select_fault w of
        Some msg \<Rightarrow> (None, Some (Storage msg))
      | None \<Rightarrow>
         (case where_id i (users w) of
            [] \<Rightarrow> (None, Some ErrNoRows)
          | r # _ \<Rightarrow> (Some (bind_row cols r), None)))"
  by (simp add: FindUser_def Users_One_def)

lemma FindUser_absent:
  "\<not> (\<exists>r\<in>set (users w). ID r = i) \<Longrightarrow> fst (FindUser i cols w) = None"
  by (auto simp: FindUser_eq where_id_def filter_empty_conv split: option.splits list.splits)

lemma FindUser_fault:
  "select_fault w = Some msg \<Longrightarrow> FindUser i cols w = (None, Some (Storage msg))"
  by (simp add: FindUser_eq)

lemma where_id_hd: "where_id i rows = r # rest \<Longrightarrow> ID r = i"
  by (metis (mono_tags, lifting) filter_eq_ConsD where_id_def)




lemma ID_bind_row: "ID (bind_row [''id''] r) = ID r"
  by (simp add: bind_row_def bind_column_def)

section \<open>The operations in terms of storage\<close>

lemma NewUser_invalid:
  "\<not> fst (validateUserData user w) \<Longrightarrow>
     NewUser user w = ((None, Some (New (snd (validateUserData user w)))), w)"
  by (cases "validateUserData user w") (simp add: NewUser_def)


lemma UpdateUser_not_found:
  "fst (FindUser (ID u) [] w) = None \<Longrightarrow>
     UpdateUser u w = ((0, Some (New ''not found user'')), w)"
  by (cases "FindUser (ID u) [] w") (simp add: UpdateUser_def)

lemma DeleteUserByID_not_found:
  "fst (FindUser i [] w) = None \<Longrightarrow>
     DeleteUserByID i w = ((0, Some (New ''not found user'')), w)"
  by (cases "FindUser i [] w") (simp add: DeleteUserByID_def)

lemma UpdateUser_eq:
  "UpdateUser u w =
     (if select_fault w \<noteq> None \<or> where_id (ID u) (users w) = []
      then ((0, Some (New ''not found user'')), w)
      else
        (case update_fault w of
           Some msg \<Rightarrow> ((0, Some (Storage msg)), Println (Storage msg) w)
         | None \<Rightarrow>
            (if RowsAffected w (length (where_id (ID u) (users w))) < 0
             then (0, Some (New ''no affected lines''))
             else (RowsAffected w (length (where_id (ID u) (users w))), None),
             w\<lparr>users :=
                 map (\<lambda>r. if ID r = ID u then r\<lparr>Name := Name u, Email := Email u\<rparr> else r)
                   (users w)\<rparr>)))"
  by (simp add: UpdateUser_def FindUser_eq User_Update_def bind_column_def
      split: option.splits list.splits)

lemma UpdateRefreshTokenByEmail_eq:
  "UpdateRefreshTokenByEmail email refreshToken w =
     (case select_fault w of
        Some msg \<Rightarrow>
          if msg = ''sql: no rows in result set''
          then (Some (0, Some (New ''not found user by e-mail'')), w)
          else (Some (0, Some (Storage msg)), Println (Storage msg) w)
      | None \<Rightarrow>
         (case where_email email (users w) of
            [] \<Rightarrow> (Some (0, Some (New ''not found user by e-mail'')), w)
          | m # _ \<Rightarrow>
             (case update_fault w of
                Some msg \<Rightarrow> (Some (0, Some (Storage msg)), Println (Storage msg) w)
              | None \<Rightarrow>
                 (if RowsAffected w (length (where_id (ID m) (users w))) < 0
                  then Some (0, Some (New ''no affected lines''))
                  else Some (RowsAffected w (length (where_id (ID m) (users w))), None),
                  w\<lparr>users :=
                      map (\<lambda>r. if ID r = ID m then r\<lparr>RefreshToken := Some refreshToken\<rparr>
                                else r)
                        (users w)\<rparr>))))"
  by (simp add: UpdateRefreshTokenByEmail_def Users_One_def User_Update_def bind_column_def
      ErrNoRows_def ID_bind_row split: option.splits list.splits)

lemma DeleteUserByID_eq:
  "DeleteUserByID i w =
     (if select_fault w \<noteq> None \<or> where_id i (users w) = []
      then ((0, Some (New ''not found user'')), w)
      else
        (case delete_fault w of
           Some msg \<Rightarrow> ((0, Some (Storage msg)), Println (Storage msg) w)
         | None \<Rightarrow>
            (if RowsAffected w (length (where_id i (users w))) < 0
             then (0, Some (New ''no affected lines''))
             else (RowsAffected w (length (where_id i (users w))), None),
             w\<lparr>users := filter (\<lambda>r. ID r \<noteq> i) (users w)\<rparr>)))"
proof (cases "where_id i (users w)")
  case Nil
  then show ?thesis
    by (simp add: DeleteUserByID_def FindUser_eq split: option.splits)
next
  case (Cons r rest)
  then have "ID r = i" by (rule where_id_hd)
  then show ?thesis using Cons
    by (simp add: DeleteUserByID_def FindUser_eq User_Delete_def bind_row_def
        split: option.splits)
qed

section \<open>Validation\<close>

text \<open>
  C1, as stated, fails: success is not returned only when no existing user has the
  same e-mail. With every read failing, a record with the e-mail of a stored user
  passes all the checks on its fields, the existence query fails, its error is
  dropped, and \<open>validateUserData\<close> returns success with the empty message.
\<close>

theorem validateUserData_passes_duplicate:
  "ann \<in> set (users storage_down)
   \<and> Email ann = Email (bob\<lparr>Email := ''ann@example.com''\<rparr>)
   \<and> select_fault storage_down = Some ''driver: bad connection''
   \<and> validateUserData (bob\<lparr>Email := ''ann@example.com''\<rparr>) storage_down = (True, [])"
  by (simp add: validateUserData_def Users_Exists_def ann_def bob_def storage_up_def
      storage_down_def)

text \<open>
  C1, amended. For every user record and every state of storage, \<open>validateUserData\<close>
  checks in this order: name non-empty, e-mail non-empty, password non-empty, password
  of at least 6 bytes, and last the existence query for a user with the same e-mail.
  The first check that fails decides the result, with that check's message; the
  result is success exactly when the four checks on the record pass and the existence
  query does not report a user with the same e-mail, and then the message is empty.
  When storage answers the query, it reports a user exactly when a stored user has
  this e-mail; when the query fails, it reports none, so the last check passes.
\<close>

theorem validateUserData_checks:
  "(Name user = [] \<longrightarrow> validateUserData user w = (False, ''User name cannot be empty!''))
   \<and> (Name user \<noteq> [] \<and> Email user = [] \<longrightarrow>
        validateUserData user w = (False, ''User e-mail cannot be empty!''))
   \<and> (Name user \<noteq> [] \<and> Email user \<noteq> [] \<and> Password user = [] \<longrightarrow>
        validateUserData user w = (False, ''User password cannot be empty!''))
   \<and> (Name user \<noteq> [] \<and> Email user \<noteq> [] \<and> Password user \<noteq> []
        \<and> length (Password user) < 6 \<longrightarrow>
        validateUserData user w = (False, ''User password must be at least 6 characters!''))
   \<and> (Name user \<noteq> [] \<and> Email user \<noteq> [] \<and> 6 \<le> length (Password user)
        \<and> fst (Users_Exists (where_email (Email user)) w) \<longrightarrow>
        validateUserData user w =
          (False, ''There is already a registered user with this email, try another email!''))
   \<and> (fst (validateUserData user w) \<longleftrightarrow>
        Name user \<noteq> [] \<and> Email user \<noteq> [] \<and> Password user \<noteq> []
        \<and> 6 \<le> length (Password user)
        \<and> \<not> fst (Users_Exists (where_email (Email user)) w))
   \<and> (fst (validateUserData user w) \<longleftrightarrow> validateUserData user w = (True, []))
   \<and> (select_fault w = None \<longrightarrow>
        fst (Users_Exists (where_email (Email user)) w) =
          (\<exists>r\<in>set (users w). Email r = Email user))
   \<and> (select_fault w \<noteq> None \<longrightarrow> \<not> fst (Users_Exists (where_email (Email user)) w))"
proof -
  have "Password user \<noteq> [] \<or> \<not> 6 \<le> length (Password user)" by auto
  moreover have "select_fault w \<noteq> None \<longrightarrow>
      \<not> fst (Users_Exists (where_email (Email user)) w)"
    by (auto simp: Users_Exists_def)
  ultimately show ?thesis
    using Users_Exists_answered [of w "Email user"]
    by (auto simp: validateUserData_def split: prod.splits)
qed

theorem validateUserData_checks_witness:
  "validateUserData (ann\<lparr>Name := []\<rparr>) storage_up = (False, ''User name cannot be empty!'')
   \<and> validateUserData (ann\<lparr>Email := []\<rparr>) storage_up = (False, ''User e-mail cannot be empty!'')
   \<and> validateUserData (ann\<lparr>Password := []\<rparr>) storage_up
       = (False, ''User password cannot be empty!'')
   \<and> validateUserData (ann\<lparr>Password := ''12345''\<rparr>) storage_up
       = (False, ''User password must be at least 6 characters!'')
   \<and> validateUserData (bob\<lparr>Email := ''ann@example.com''\<rparr>) storage_up
       = (False, ''There is already a registered user with this email, try another email!'')
   \<and> validateUserData (bob\<lparr>Email := ''carl@example.com''\<rparr>) storage_up = (True, [])
   \<and> select_fault storage_down \<noteq> None
   \<and> \<not> fst (Users_Exists (where_email ''ann@example.com'') storage_down)
   \<and> fst (validateUserData (bob\<lparr>Email := ''ann@example.com''\<rparr>) storage_down)"
  using validateUserData_checks [of "ann\<lparr>Name := []\<rparr>" storage_up]
    validateUserData_checks [of "bob\<lparr>Email := ''ann@example.com''\<rparr>" storage_down]
    validateUserData_checks [of "ann\<lparr>Email := []\<rparr>" storage_up]
    validateUserData_checks [of "ann\<lparr>Password := []\<rparr>" storage_up]
    validateUserData_checks [of "ann\<lparr>Password := ''12345''\<rparr>" storage_up]
    validateUserData_checks [of "bob\<lparr>Email := ''ann@example.com''\<rparr>" storage_up]
    validateUserData_checks [of "bob\<lparr>Email := ''carl@example.com''\<rparr>" storage_up]
  by (simp add: validateUserData_def ann_def bob_def storage_up_def storage_down_def
      Users_Exists_def where_email_def)

text \<open>
  C9. \<open>validateUserData\<close> drops the error of the existence query. When the query
  fails it reports no user together with its error; for a user record that passes the
  checks on name, e-mail and password, validation then succeeds with the empty
  message, whatever rows are stored: the duplicate check is skipped, and nothing is
  reported or logged (the function returns a flag and a message only).
\<close>

theorem validateUserData_drops_query_error:
  assumes "select_fault w = Some msg"
    and "Name user \<noteq> []" and "Email user \<noteq> []" and "6 \<le> length (Password user)"
  shows "Users_Exists (where_email (Email user)) w = (False, Some (Storage msg))
    \<and> validateUserData user w = (True, [])"
proof -
  have "Password user \<noteq> []" using assms(4) by auto
  then show ?thesis using assms by (simp add: validateUserData_def Users_Exists_def)
qed

theorem validateUserData_drops_query_error_witness:
  "select_fault storage_down = Some ''driver: bad connection''
   \<and> ann \<in> set (users storage_down) \<and> Email ann = ''ann@example.com''
   \<and> validateUserData (bob\<lparr>Email := ''ann@example.com''\<rparr>) storage_down = (True, [])
   \<and> validateUserData (bob\<lparr>Email := ''ann@example.com''\<rparr>) storage_up
      = (False, ''There is already a registered user with this email, try another email!'')"
  using validateUserData_drops_query_error
    [of storage_down "''driver: bad connection''" "bob\<lparr>Email := ''ann@example.com''\<rparr>"]
  by (simp add: validateUserData_def ann_def bob_def storage_up_def storage_down_def
      Users_Exists_def where_email_def)

section \<open>Creating a user\<close>

text \<open>
  C2. For every user record that fails validation, \<open>NewUser\<close> returns no user and the
  error \<^verbatim>\<open>errors.New(messageError)\<close> carrying the validation message, and it performs
  no insert: the stored users, and the whole state, are as before. The message is one
  of the five validation messages, and the record fails for one of the five reasons:
  empty name, empty e-mail, empty password, password shorter than 6, or a stored user
  with the same e-mail found by the existence query.
\<close>

theorem NewUser_rejects_invalid:
  assumes "\<not> fst (validateUserData user w)"
  shows "fst (NewUser user w) = (None, Some (New (snd (validateUserData user w))))
    \<and> users (snd (NewUser user w)) = users w
    \<and> snd (NewUser user w) = w
    \<and> snd (validateUserData user w) \<in>
        {''User name cannot be empty!'', ''User e-mail cannot be empty!'',
         ''User password cannot be empty!'',
         ''User password must be at least 6 characters!'',
         ''There is already a registered user with this email, try another email!''}
    \<and> (Name user = [] \<or> Email user = [] \<or> Password user = []
        \<or> length (Password user) < 6
        \<or> (select_fault w = None \<and> (\<exists>r\<in>set (users w). Email r = Email user)))"
proof -
  have m: "snd (validateUserData user w) \<in>
        {''User name cannot be empty!'', ''User e-mail cannot be empty!'',
         ''User password cannot be empty!'',
         ''User password must be at least 6 characters!'',
         ''There is already a registered user with this email, try another email!''}"
    using assms by (simp add: validateUserData_def split: prod.splits if_splits)
  have c: "Name user = [] \<or> Email user = [] \<or> Password user = []
        \<or> length (Password user) < 6
        \<or> (select_fault w = None \<and> (\<exists>r\<in>set (users w). Email r = Email user))"
    using assms
    by (auto simp: validateUserData_def Users_Exists_def where_email_def filter_empty_conv
        split: prod.splits if_splits option.splits)
  show ?thesis using m c NewUser_invalid [OF assms] by simp
qed

theorem NewUser_rejects_invalid_witness:
  "\<not> fst (validateUserData (bob\<lparr>Email := ''ann@example.com''\<rparr>) storage_up)
   \<and> fst (NewUser (bob\<lparr>Email := ''ann@example.com''\<rparr>) storage_up)
      = (None, Some (New
          ''There is already a registered user with this email, try another email!''))
   \<and> users (snd (NewUser (bob\<lparr>Email := ''ann@example.com''\<rparr>) storage_up)) = [ann, bob]"
  using NewUser_rejects_invalid [of "bob\<lparr>Email := ''ann@example.com''\<rparr>" storage_up]
  by (simp add: validateUserData_def ann_def bob_def storage_up_def Users_Exists_def
      where_email_def)

text \<open>
  C7. A create that fails validation is idempotent. For every user record that fails
  validation in a state, running \<open>NewUser\<close> and then running it again from the state
  the first run left gives the same error both times, the error carrying the
  validation message, and the stored users are as before after the first run and
  after the second.
\<close>

theorem NewUser_failed_twice:
  assumes "\<not> fst (validateUserData user w)"
  shows "fst (NewUser user w) = (None, Some (New (snd (validateUserData user w))))
    \<and> fst (NewUser user (snd (NewUser user w))) = fst (NewUser user w)
    \<and> users (snd (NewUser user w)) = users w
    \<and> users (snd (NewUser user (snd (NewUser user w)))) = users w"
  using NewUser_invalid [OF assms] by simp

theorem NewUser_failed_twice_witness:
  "\<not> fst (validateUserData (bob\<lparr>Email := ''ann@example.com''\<rparr>) storage_up)
   \<and> fst (NewUser (bob\<lparr>Email := ''ann@example.com''\<rparr>)
        (snd (NewUser (bob\<lparr>Email := ''ann@example.com''\<rparr>) storage_up)))
      = (None, Some (New
          ''There is already a registered user with this email, try another email!''))
   \<and> users (snd (NewUser (bob\<lparr>Email := ''ann@example.com''\<rparr>)
        (snd (NewUser (bob\<lparr>Email := ''ann@example.com''\<rparr>) storage_up)))) = [ann, bob]"
  using NewUser_failed_twice [of "bob\<lparr>Email := ''ann@example.com''\<rparr>" storage_up]
  by (simp add: validateUserData_def ann_def bob_def storage_up_def Users_Exists_def
      where_email_def)

section \<open>Authentication\<close>



section \<open>Updating and deleting\<close>

text \<open>
  C4. For every id that no stored user has, \<open>UpdateUser\<close> fails with
  \<^verbatim>\<open>errors.New("not found user")\<close> and \<open>DeleteUserByID\<close> fails with the same error, and
  in both cases the stored users are unchanged. This holds in every state of
  storage, whether the lookup is answered or fails.
\<close>

theorem missing_id_not_found:
  "(\<not> (\<exists>r\<in>set (users w). ID r = ID userToUpdate) \<longrightarrow>
      fst (UpdateUser userToUpdate w) = (0, Some (New ''not found user''))
      \<and> users (snd (UpdateUser userToUpdate w)) = users w)
   \<and> (\<not> (\<exists>r\<in>set (users w). ID r = userId) \<longrightarrow>
      fst (DeleteUserByID userId w) = (0, Some (New ''not found user''))
      \<and> users (snd (DeleteUserByID userId w)) = users w)"
  using UpdateUser_not_found [OF FindUser_absent, of w userToUpdate]
    DeleteUserByID_not_found [OF FindUser_absent, of w userId]
  by auto

theorem missing_id_not_found_witness:
  "fst (UpdateUser (ann\<lparr>ID := 7\<rparr>) storage_up) = (0, Some (New ''not found user''))
   \<and> users (snd (UpdateUser (ann\<lparr>ID := 7\<rparr>) storage_up)) = [ann, bob]
   \<and> fst (DeleteUserByID 7 storage_up) = (0, Some (New ''not found user''))
   \<and> users (snd (DeleteUserByID 7 storage_up)) = [ann, bob]"
  using missing_id_not_found [of storage_up "ann\<lparr>ID := 7\<rparr>" 7]
  by (simp add: ann_def bob_def storage_up_def)

text \<open>
  C10. \<open>UpdateUser\<close> and \<open>DeleteUserByID\<close> drop the error of the lookup by id and test
  the returned user for nil only. For every storage failure during that lookup the
  operation returns \<^verbatim>\<open>errors.New("not found user")\<close>, the same error as for an id
  that no user has, leaves the state as it was, and neither returns nor logs the
  storage error.
\<close>

theorem lookup_error_reported_as_not_found:
  assumes "select_fault w = Some msg"
  shows "FindUser (ID userToUpdate) [] w = (None, Some (Storage msg))
    \<and> UpdateUser userToUpdate w = ((0, Some (New ''not found user'')), w)
    \<and> FindUser userId [] w = (None, Some (Storage msg))
    \<and> DeleteUserByID userId w = ((0, Some (New ''not found user'')), w)"
  using FindUser_fault [OF assms] UpdateUser_not_found [of userToUpdate w]
    DeleteUserByID_not_found [of userId w]
  by simp

theorem lookup_error_reported_as_not_found_witness:
  "select_fault storage_down = Some ''driver: bad connection''
   \<and> ann \<in> set (users storage_down)
   \<and> UpdateUser (ann\<lparr>Name := ''Anna''\<rparr>) storage_down
       = ((0, Some (New ''not found user'')), storage_down)
   \<and> DeleteUserByID 1 storage_down = ((0, Some (New ''not found user'')), storage_down)
   \<and> logged storage_down = []"
  using lookup_error_reported_as_not_found
    [of storage_down "''driver: bad connection''" "ann\<lparr>Name := ''Anna''\<rparr>" 1]
  by (simp add: ann_def bob_def storage_up_def storage_down_def)

text \<open>
  C5. For every state and every call of \<open>UpdateUser\<close>, the stored rows after the call
  are the rows before, one for one, with the same id, password and refresh token, and
  a row whose id is not the id of the input is unchanged: only the name and e-mail of
  the matching row may change, whatever other fields the input carries. For every
  call of \<open>UpdateRefreshTokenByEmail\<close> the rows after the call have the same id, name,
  e-mail and password, and a row whose id is not the id of the user found by e-mail
  is unchanged: only the refresh token of the matching row may change.
\<close>

theorem update_write_scope:
  "list_all2
     (\<lambda>r r'. ID r' = ID r \<and> Password r' = Password r \<and> RefreshToken r' = RefreshToken r
        \<and> (ID r \<noteq> ID userToUpdate \<longrightarrow> r' = r))
     (users w) (users (snd (UpdateUser userToUpdate w)))
   \<and> list_all2
     (\<lambda>r r'. ID r' = ID r \<and> Name r' = Name r \<and> Email r' = Email r \<and> Password r' = Password r
        \<and> ((\<forall>m\<in>set (take 1 (where_email email (users w))). ID r \<noteq> ID m) \<longrightarrow> r' = r))
     (users w) (users (snd (UpdateRefreshTokenByEmail email refreshToken w)))"
proof
  show "list_all2
     (\<lambda>r r'. ID r' = ID r \<and> Password r' = Password r \<and> RefreshToken r' = RefreshToken r
        \<and> (ID r \<noteq> ID userToUpdate \<longrightarrow> r' = r))
     (users w) (users (snd (UpdateUser userToUpdate w)))"
    by (simp add: UpdateUser_eq Println_def list_all2_map2 list_all2_same
        split: option.splits)
  show "list_all2
     (\<lambda>r r'. ID r' = ID r \<and> Name r' = Name r \<and> Email r' = Email r \<and> Password r' = Password r
        \<and> ((\<forall>m\<in>set (take 1 (where_email email (users w))). ID r \<noteq> ID m) \<longrightarrow> r' = r))
     (users w) (users (snd (UpdateRefreshTokenByEmail email refreshToken w)))"
    by (simp add: UpdateRefreshTokenByEmail_eq Println_def list_all2_map2 list_all2_same
        split: option.splits list.splits)
qed

theorem update_write_scope_witness:
  "users (snd (UpdateUser
      \<lparr>ID = 1, Name = ''Anna'', Email = ''anna@example.com'', Password = ''changed'',
        RefreshToken = Some ''forged''\<rparr> storage_up))
     = [ann\<lparr>Name := ''Anna'', Email := ''anna@example.com''\<rparr>, bob]
   \<and> users (snd (UpdateRefreshTokenByEmail ''bob@example.com'' ''t9'' storage_up))
     = [ann, bob\<lparr>RefreshToken := Some ''t9''\<rparr>]"
  using update_write_scope [of "\<lparr>ID = 1, Name = ''Anna'', Email = ''anna@example.com'',
      Password = ''changed'', RefreshToken = Some ''forged''\<rparr>" storage_up
      "''bob@example.com''" "''t9''"]
  by (simp add: UpdateUser_eq UpdateRefreshTokenByEmail_eq where_id_def where_email_def
      RowsAffected_def ann_def bob_def storage_up_def)

text \<open>
  C6. \<open>UpdateUser\<close>, \<open>UpdateRefreshTokenByEmail\<close> and \<open>DeleteUserByID\<close> fail with
  \<^verbatim>\<open>errors.New("no affected lines")\<close> exactly when the statement is reached (the lookup
  found a user), the statement does not fail, and the affected-row count the driver
  reports for it is negative. When every count the driver reports is non-negative,
  none of the three operations returns this error.
\<close>

theorem no_affected_lines_iff:
  "(snd (fst (UpdateUser userToUpdate w)) = Some (New ''no affected lines'') \<longleftrightarrow>
      select_fault w = None \<and> where_id (ID userToUpdate) (users w) \<noteq> []
      \<and> update_fault w = None
      \<and> RowsAffected w (length (where_id (ID userToUpdate) (users w))) < 0)
   \<and> (fst (UpdateRefreshTokenByEmail email refreshToken w)
        = Some (0, Some (New ''no affected lines'')) \<longleftrightarrow>
      select_fault w = None \<and> update_fault w = None
      \<and> (\<exists>m rest. where_email email (users w) = m # rest
            \<and> RowsAffected w (length (where_id (ID m) (users w))) < 0))
   \<and> (snd (fst (DeleteUserByID userId w)) = Some (New ''no affected lines'') \<longleftrightarrow>
      select_fault w = None \<and> where_id userId (users w) \<noteq> [] \<and> delete_fault w = None
      \<and> RowsAffected w (length (where_id userId (users w))) < 0)
   \<and> ((\<forall>k. 0 \<le> RowsAffected w k) \<longrightarrow>
      snd (fst (UpdateUser userToUpdate w)) \<noteq> Some (New ''no affected lines'')
      \<and> (\<forall>n. fst (UpdateRefreshTokenByEmail email refreshToken w)
            \<noteq> Some (n, Some (New ''no affected lines'')))
      \<and> snd (fst (DeleteUserByID userId w)) \<noteq> Some (New ''no affected lines''))"
proof -
  have 1: "snd (fst (UpdateUser userToUpdate w)) = Some (New ''no affected lines'') \<longleftrightarrow>
      select_fault w = None \<and> where_id (ID userToUpdate) (users w) \<noteq> []
      \<and> update_fault w = None
      \<and> RowsAffected w (length (where_id (ID userToUpdate) (users w))) < 0"
    by (simp add: UpdateUser_eq split: option.splits)
  have 2: "(\<exists>n. fst (UpdateRefreshTokenByEmail email refreshToken w)
        = Some (n, Some (New ''no affected lines''))) \<longleftrightarrow>
      select_fault w = None \<and> update_fault w = None
      \<and> (\<exists>m rest. where_email email (users w) = m # rest
            \<and> RowsAffected w (length (where_id (ID m) (users w))) < 0)"
    by (simp add: UpdateRefreshTokenByEmail_eq split: option.splits list.splits)
  have zero: "fst (UpdateRefreshTokenByEmail email refreshToken w)
        = Some (n, Some (New ''no affected lines'')) \<Longrightarrow> n = 0" for n
    by (simp add: UpdateRefreshTokenByEmail_eq split: option.splits list.splits if_splits)
  have 3: "snd (fst (DeleteUserByID userId w)) = Some (New ''no affected lines'') \<longleftrightarrow>
      select_fault w = None \<and> where_id userId (users w) \<noteq> [] \<and> delete_fault w = None
      \<and> RowsAffected w (length (where_id userId (users w))) < 0"
    by (simp add: DeleteUserByID_eq split: option.splits)
  have 4: "\<not> RowsAffected w k < 0" if "\<forall>k. 0 \<le> RowsAffected w k" for k
    using that by (simp add: not_less)
  show ?thesis
    apply (intro conjI)
       apply (rule 1)
      apply (metis 2 zero)
     apply (rule 3)
    apply (metis 1 2 3 4)
    done
qed

theorem no_affected_lines_iff_witness:
  "RowsAffected storage_miscounting 1 = - 1
   \<and> UpdateUser (ann\<lparr>Name := ''Anna''\<rparr>) storage_miscounting
       = ((0, Some (New ''no affected lines'')),
          storage_miscounting\<lparr>users := [ann\<lparr>Name := ''Anna''\<rparr>, bob]\<rparr>)
   \<and> fst (UpdateRefreshTokenByEmail ''bob@example.com'' ''t9'' storage_miscounting)
       = Some (0, Some (New ''no affected lines''))
   \<and> fst (DeleteUserByID 1 storage_miscounting) = (0, Some (New ''no affected lines''))
   \<and> fst (UpdateUser (ann\<lparr>Name := ''Anna''\<rparr>) storage_up) = (1, None)
   \<and> fst (UpdateRefreshTokenByEmail ''bob@example.com'' ''t9'' storage_up) = Some (1, None)
   \<and> fst (DeleteUserByID 1 storage_up) = (1, None)"
  using no_affected_lines_iff [of "ann\<lparr>Name := ''Anna''\<rparr>" storage_miscounting
      "''bob@example.com''" "''t9''" 1]
    no_affected_lines_iff [of "ann\<lparr>Name := ''Anna''\<rparr>" storage_up "''bob@example.com''"
      "''t9''" 1]
  by (simp add: UpdateUser_eq UpdateRefreshTokenByEmail_eq DeleteUserByID_eq where_id_def
      where_email_def RowsAffected_def ann_def bob_def storage_up_def storage_miscounting_def)

section \<open>Storage errors\<close>

text \<open>
  C8, as stated, fails: a storage error is not wrapped, and not every operation
  reports it. With every read failing, \<open>Authenticate\<close> logs the error once and returns
  the very error value the lookup produced, and \<open>UpdateUser\<close> neither logs nor returns
  the error of its lookup.
\<close>

theorem storage_error_returned_raw:
  "Users_One [''password''] (where_email ''ann@example.com'') storage_down
     = (None, Some (Storage ''driver: bad connection''))
   \<and> Authenticate ''ann@example.com'' ''secret1'' storage_down
     = ((False, Some (Storage ''driver: bad connection'')),
        storage_down\<lparr>logged := [''driver: bad connection'']\<rparr>)
   \<and> FindUser 1 [] storage_down = (None, Some (Storage ''driver: bad connection''))
   \<and> UpdateUser ann storage_down = ((0, Some (New ''not found user'')), storage_down)
   \<and> logged storage_down = []"
  by (simp add: Authenticate_def Users_One_def FindUser_def UpdateUser_def Println_def
      ann_def storage_down_def storage_up_def)

text \<open>
  C8, amended. For every database error other than not-found arising inside
  \<open>Authenticate\<close>, and in the other operations that test the error (\<open>GetAllUsers\<close>,
  \<open>GetUserByID\<close>, \<open>GetUserByToken\<close>, the lookup of \<open>UpdateRefreshTokenByEmail\<close>, the
  insert and the re-read of \<open>NewUser\<close>, and the update and delete statements of
  \<open>UpdateUser\<close>, \<open>UpdateRefreshTokenByEmail\<close> and \<open>DeleteUserByID\<close>), the error is
  logged once, where it is detected, and then returned to the caller unchanged: the
  same error value the schema layer handed up, not wrapped. A database error other
  than not-found is a failure of the handle (\<open>select_fault\<close>, \<open>insert_fault\<close>,
  \<open>update_fault\<close>, \<open>delete_fault\<close>); for the lookups of \<open>Authenticate\<close> and
  \<open>UpdateRefreshTokenByEmail\<close>, which tell not-found by the message, its message is
  not the no-rows message.
\<close>

theorem storage_error_logged_and_returned:
  "(select_fault w = Some msg \<and> msg \<noteq> ''sql: no rows in result set'' \<longrightarrow>
      Authenticate email password w
        = ((False, Some (Storage msg)), w\<lparr>logged := logged w @ [msg]\<rparr>)
      \<and> UpdateRefreshTokenByEmail email refreshToken w
        = (Some (0, Some (Storage msg)), w\<lparr>logged := logged w @ [msg]\<rparr>))
   \<and> (select_fault w = Some msg \<longrightarrow>
      GetAllUsers w = (([], Some (Storage msg)), w\<lparr>logged := logged w @ [msg]\<rparr>)
      \<and> GetUserByID userId w = ((None, Some (Storage msg)), w\<lparr>logged := logged w @ [msg]\<rparr>)
      \<and> GetUserByToken token w
        = ((None, Some (Storage msg)), w\<lparr>logged := logged w @ [msg]\<rparr>))
   \<and> (fst (validateUserData user w) \<and> insert_fault w = Some msg \<longrightarrow>
      NewUser user w = ((None, Some (Storage msg)), w\<lparr>logged := logged w @ [msg]\<rparr>))
   \<and> (fst (validateUserData user w) \<and> insert_fault w = None \<and> select_fault w = Some msg \<longrightarrow>
      fst (NewUser user w) = (None, Some (Storage msg))
      \<and> logged (snd (NewUser user w)) = logged w @ [msg])
   \<and> (select_fault w = None \<and> where_id (ID userToUpdate) (users w) \<noteq> []
        \<and> update_fault w = Some msg \<longrightarrow>
      UpdateUser userToUpdate w = ((0, Some (Storage msg)), w\<lparr>logged := logged w @ [msg]\<rparr>))
   \<and> (select_fault w = None \<and> where_email email (users w) \<noteq> []
        \<and> update_fault w = Some msg \<longrightarrow>
      UpdateRefreshTokenByEmail email refreshToken w
        = (Some (0, Some (Storage msg)), w\<lparr>logged := logged w @ [msg]\<rparr>))
   \<and> (select_fault w = None \<and> where_id userId (users w) \<noteq> []
        \<and> delete_fault w = Some msg \<longrightarrow>
      DeleteUserByID userId w = ((0, Some (Storage msg)), w\<lparr>logged := logged w @ [msg]\<rparr>))"
proof -
  have a: "select_fault w = Some msg \<and> msg \<noteq> ''sql: no rows in result set'' \<longrightarrow>
      Authenticate email password w
        = ((False, Some (Storage msg)), w\<lparr>logged := logged w @ [msg]\<rparr>)
      \<and> UpdateRefreshTokenByEmail email refreshToken w
        = (Some (0, Some (Storage msg)), w\<lparr>logged := logged w @ [msg]\<rparr>)"
    by (simp add: Authenticate_def UpdateRefreshTokenByEmail_def Users_One_fault Println_def)
  have b: "select_fault w = Some msg \<longrightarrow>
      GetAllUsers w = (([], Some (Storage msg)), w\<lparr>logged := logged w @ [msg]\<rparr>)
      \<and> GetUserByID userId w = ((None, Some (Storage msg)), w\<lparr>logged := logged w @ [msg]\<rparr>)
      \<and> GetUserByToken token w
        = ((None, Some (Storage msg)), w\<lparr>logged := logged w @ [msg]\<rparr>)"
    by (simp add: GetAllUsers_def GetUserByID_def GetUserByToken_def Users_All_def FindUser_def
        Users_One_fault Println_def)
  have c: "fst (validateUserData user w) \<and> insert_fault w = Some msg \<longrightarrow>
      NewUser user w = ((None, Some (Storage msg)), w\<lparr>logged := logged w @ [msg]\<rparr>)"
    by (cases "validateUserData user w") (simp add: NewUser_def User_Insert_def Println_def)
  have d: "fst (validateUserData user w) \<and> insert_fault w = None \<and> select_fault w = Some msg
      \<longrightarrow> fst (NewUser user w) = (None, Some (Storage msg))
      \<and> logged (snd (NewUser user w)) = logged w @ [msg]"
    by (cases "validateUserData user w")
      (simp add: NewUser_def User_Insert_def Users_One_def Println_def)
  have e: "select_fault w = None \<and> where_id (ID userToUpdate) (users w) \<noteq> []
        \<and> update_fault w = Some msg \<longrightarrow>
      UpdateUser userToUpdate w = ((0, Some (Storage msg)), w\<lparr>logged := logged w @ [msg]\<rparr>)"
    by (simp add: UpdateUser_eq Println_def)
  have f: "select_fault w = None \<and> where_email email (users w) \<noteq> []
        \<and> update_fault w = Some msg \<longrightarrow>
      UpdateRefreshTokenByEmail email refreshToken w
        = (Some (0, Some (Storage msg)), w\<lparr>logged := logged w @ [msg]\<rparr>)"
    by (simp add: UpdateRefreshTokenByEmail_eq Println_def split: list.splits)
  have g: "select_fault w = None \<and> where_id userId (users w) \<noteq> []
        \<and> delete_fault w = Some msg \<longrightarrow>
      DeleteUserByID userId w = ((0, Some (Storage msg)), w\<lparr>logged := logged w @ [msg]\<rparr>)"
    by (simp add: DeleteUserByID_eq Println_def)
  show ?thesis using a b c d e f g by blast
qed

theorem storage_error_logged_and_returned_witness:
  "select_fault storage_down = Some ''driver: bad connection''
   \<and> Authenticate ''ann@example.com'' ''secret1'' storage_down
     = ((False, Some (Storage ''driver: bad connection'')),
        storage_down\<lparr>logged := [''driver: bad connection'']\<rparr>)
   \<and> GetUserByID 1 storage_down
     = ((None, Some (Storage ''driver: bad connection'')),
        storage_down\<lparr>logged := [''driver: bad connection'']\<rparr>)
   \<and> UpdateUser ann (storage_up\<lparr>update_fault := Some ''deadlock''\<rparr>)
     = ((0, Some (Storage ''deadlock'')),
        storage_up\<lparr>update_fault := Some ''deadlock'', logged := [''deadlock'']\<rparr>)"
  using storage_error_logged_and_returned [of storage_down "''driver: bad connection''"
      "''ann@example.com''" "''secret1''" "''t9''" 1 "''t0''" ann ann]
    storage_error_logged_and_returned [of "storage_up\<lparr>update_fault := Some ''deadlock''\<rparr>"
      "''deadlock''" "''ann@example.com''" "''secret1''" "''t9''" 1 "''t0''" ann ann]
  by (simp add: where_id_def ann_def bob_def storage_down_def storage_up_def)

end
